theory Spec2Isabelle
  imports Complex_Main "HOL-Library.AList" "HOL-Library.Sublist"
begin

section \<open>MuseumPass AI: the booking and chat handlers of main.py\<close>

text \<open>
  The development follows \<^verbatim>\<open>src/main.py\<close>. Python strings are modelled as
  \<^typ>\<open>string\<close> restricted to ASCII text (characters above 127 are left alone by the
  case mappings and are neither word characters nor white space). Python integers are
  \<^typ>\<open>int\<close>. A Python float is the rational it denotes or an infinity, and the
  rounding of each floating-point operation is written out. Everything the handlers take
  from their environment is an
  explicit argument: the catalog loaded from \<^verbatim>\<open>museums.json\<close>, the clock, the
  similarity scorer of the fuzzy-matching library, the conversational model, and the
  state of the file \<^verbatim>\<open>bookings.json\<close>.
\<close>

subsection \<open>Exceptions\<close>

datatype exn =
    HTTPException nat string
  | RequestValidationError
  | AttributeError string
  | TypeError
  | FileNotFoundError
  | JSONDecodeError
  | OverflowError

subsection \<open>String operations of the Python library\<close>

text \<open>\<^verbatim>\<open>str.lower()\<close> and \<^verbatim>\<open>str.upper()\<close> map the ASCII letters and leave the rest.\<close>

definition lower_char :: "char \<Rightarrow> char" where
  "lower_char c =
     (case map_of (zip ''ABCDEFGHIJKLMNOPQRSTUVWXYZ'' ''abcdefghijklmnopqrstuvwxyz'') c of
        Some d \<Rightarrow> d | None \<Rightarrow> c)"

definition upper_char :: "char \<Rightarrow> char" where
  "upper_char c =
     (case map_of (zip ''abcdefghijklmnopqrstuvwxyz'' ''ABCDEFGHIJKLMNOPQRSTUVWXYZ'') c of
        Some d \<Rightarrow> d | None \<Rightarrow> c)"

definition lower :: "string \<Rightarrow> string" where
  "lower s = map lower_char s"

definition upper :: "string \<Rightarrow> string" where
  "upper s = map upper_char s"

text \<open>\<^verbatim>\<open>str.capitalize()\<close>: first character upper case, the rest lower case.\<close>

definition capitalize :: "string \<Rightarrow> string" where
  "capitalize s = (case s of [] \<Rightarrow> [] | c # cs \<Rightarrow> upper_char c # lower cs)"

text \<open>White space as \<^verbatim>\<open>str.isspace\<close> and the pattern \<^verbatim>\<open>\s\<close> see it (ASCII).\<close>

definition is_space :: "char \<Rightarrow> bool" where
  "is_space c =
     (let n = (of_char c :: nat) in (9 \<le> n \<and> n \<le> 13) \<or> (28 \<le> n \<and> n \<le> 32))"

definition is_digit :: "char \<Rightarrow> bool" where
  "is_digit c = (let n = (of_char c :: nat) in 48 \<le> n \<and> n \<le> 57)"

text \<open>Word characters as the pattern \<^verbatim>\<open>\w\<close> sees them (ASCII).\<close>

definition is_word :: "char \<Rightarrow> bool" where
  "is_word c =
     (let n = (of_char c :: nat) in
        (48 \<le> n \<and> n \<le> 57) \<or> (65 \<le> n \<and> n \<le> 90) \<or> (97 \<le> n \<and> n \<le> 122) \<or> n = 95)"

definition strip :: "string \<Rightarrow> string" where
  "strip s = rev (dropWhile is_space (rev (dropWhile is_space s)))"

text \<open>\<^verbatim>\<open>re.sub(r"\s+", " ", s)\<close>: every maximal run of white space becomes one blank.\<close>

function collapse_spaces :: "string \<Rightarrow> string" where
  "collapse_spaces [] = []"
| "collapse_spaces (c # cs) =
     (if is_space c then CHR '' '' # collapse_spaces (dropWhile is_space cs)
      else c # collapse_spaces cs)"
  by pat_completeness auto
termination
  by (relation "measure length") (auto simp: less_Suc_eq_le length_dropWhile_le)

text \<open>
  \<^verbatim>\<open>s.replace(old, new)\<close>: the occurrences of \<open>old\<close> are replaced from left to
  right without overlap. With an empty \<open>old\<close> Python puts \<open>new\<close> around every
  character.
\<close>

fun replace_nonempty :: "string \<Rightarrow> string \<Rightarrow> string \<Rightarrow> string" where
  "replace_nonempty old new [] = []"
| "replace_nonempty old new (c # cs) =
     (if prefix old (c # cs) then new @ replace_nonempty old new (drop (length old - 1) cs)
      else c # replace_nonempty old new cs)"

definition replace :: "string \<Rightarrow> string \<Rightarrow> string \<Rightarrow> string" where
  "replace old new s =
     (if old = [] then new @ concat (map (\<lambda>c. c # new) s) else replace_nonempty old new s)"

text \<open>\<^verbatim>\<open>sub in s\<close> on strings: \<open>sub\<close> occurs in \<open>s\<close> as a contiguous piece.\<close>

fun contains :: "string \<Rightarrow> string \<Rightarrow> bool" where
  "contains sub [] = (sub = [])"
| "contains sub (c # cs) = (prefix sub (c # cs) \<or> contains sub cs)"

text \<open>\<^verbatim>\<open>sep.join(xs)\<close>.\<close>

fun join :: "string \<Rightarrow> string list \<Rightarrow> string" where
  "join sep [] = []"
| "join sep [x] = x"
| "join sep (x # y # ys) = x @ sep @ join sep (y # ys)"

text \<open>The value of a string of decimal digits, as \<^verbatim>\<open>int\<close> reads it.\<close>

definition digit_val :: "char \<Rightarrow> nat" where
  "digit_val c = of_char c - 48"

definition digits_val :: "string \<Rightarrow> nat" where
  "digits_val s = foldl (\<lambda>n c. 10 * n + digit_val c) 0 s"

text \<open>\<^verbatim>\<open>clean_input\<close>: drop what is neither a word character nor white space, then lower.\<close>

definition clean_input :: "string \<Rightarrow> string" where
  "clean_input text = lower (filter (\<lambda>c. is_word c \<or> is_space c) text)"

subsection \<open>Floating point\<close>

text \<open>
  A Python float is a binary64 number: 53 significant bits, rounded to nearest, ties to
  the even neighbour. The price computation only meets integers and halves of integers
  of magnitude at least one half, so subnormal numbers never occur.

  \<open>round53 n\<close> is the natural number \<open>n\<close> rounded to 53 significant bits:
  \<open>mantissa_shift n\<close> low bits are cut off, and the rest goes up when more than half of
  the next unit was cut off, or exactly half and the rest is odd.
\<close>

datatype pyfloat = Finite rat | Infinity | Minus_Infinity

function mantissa_shift :: "nat \<Rightarrow> nat" where
  "mantissa_shift n = (if n < 2 ^ 53 then 0 else Suc (mantissa_shift (n div 2)))"
  by pat_completeness auto
termination
  by (relation "measure id") auto

declare mantissa_shift.simps [simp del]

definition round53 :: "nat \<Rightarrow> nat" where
  "round53 n =
     (let s = mantissa_shift n; q = n div 2 ^ s; r = n mod 2 ^ s
      in (if 2 ^ s < 2 * r \<or> (2 * r = 2 ^ s \<and> odd q) then q + 1 else q) * 2 ^ s)"

text \<open>
  The conversion of a Python integer to a float, as the arithmetic operators apply it to
  the integer operand of a mixed operation: the nearest float, which has an integer
  value, or \<^verbatim>\<open>OverflowError\<close> when that is beyond the largest float.
\<close>

definition float_of_int :: "int \<Rightarrow> exn + int" where
  "float_of_int n =
     (let r = round53 (nat \<bar>n\<bar>)
      in if 2 ^ 1024 \<le> r then Inl OverflowError else Inr (sgn n * int r))"

text \<open>
  \<^verbatim>\<open>x + y * 0.5\<close> on floats \<open>x\<close> and \<open>y\<close> of integer value. Halving is exact. The
  exact sum is \<open>(2 * x + y) / 2\<close>; the addition rounds it to 53 bits and gives an
  infinity beyond the largest float.
\<close>

definition float_add_half :: "int \<Rightarrow> int \<Rightarrow> pyfloat" where
  "float_add_half x y =
     (let t = 2 * x + y; r = round53 (nat \<bar>t\<bar>)
      in if 2 ^ 1025 \<le> r then (if 0 < t then Infinity else Minus_Infinity)
         else Finite (of_int (sgn t * int r) / 2))"

subsection \<open>Constants\<close>

definition TIME_SLOTS :: "string list" where
  "TIME_SLOTS = [''10:00 AM'', ''11:00 AM'', ''12:00 PM'', ''1:00 PM'', ''2:00 PM'',
                 ''3:00 PM'', ''4:00 PM'', ''5:00 PM'']"

definition TICKET_TYPE :: "(string \<times> int) list" where
  "TICKET_TYPE = [(''standard'', 0), (''elite'', 300), (''premium'', 100)]"

definition MAX_VISITORS_PER_DAY :: int where
  "MAX_VISITORS_PER_DAY = 500"

definition normalize_time_slot :: "string \<Rightarrow> string" where
  "normalize_time_slot time_slot =
     replace ''.'' '''' (collapse_spaces (upper (strip time_slot)))"

subsection \<open>The clock and the available slots\<close>

text \<open>
  A \<^verbatim>\<open>datetime.date\<close> is modelled by its proleptic Gregorian ordinal
  (\<^verbatim>\<open>date.toordinal()\<close>). One reading of the clock gives today's date and the
  current hour. The clock is taken at least 60 days before the last representable date,
  so that \<^verbatim>\<open>today + timedelta(days=60)\<close> exists.
\<close>

type_synonym date = nat

record clock =
  today :: date
  hour :: nat

text \<open>
  The argument of \<^verbatim>\<open>get_available_time_slots\<close> is compared with a date by
  \<^verbatim>\<open>==\<close>; Python compares a string with a date as unequal. The argument is
  therefore a Python value that is a string or a date.
\<close>

datatype pyval = PyStr string | PyDate date

definition slot_hour :: "string \<Rightarrow> nat" where
  "slot_hour slot = digits_val (takeWhile (\<lambda>c. c \<noteq> CHR '':'') slot)"

definition get_available_time_slots :: "clock \<Rightarrow> pyval \<Rightarrow> string list" where
  "get_available_time_slots clk booking_date =
     (let current_hour = hour clk in
      if booking_date = PyDate (today clk)
      then filter (\<lambda>slot. slot_hour slot > current_hour) TIME_SLOTS
      else TIME_SLOTS)"

subsection \<open>The ledger file\<close>

record visitors =
  Adults :: int
  Kids :: int

record booking_details =
  Name :: string
  Museum :: string
  Visitors :: visitors
  Ticket_Type :: string
  Date :: string
  Time_Slot :: string
  Total_Price :: pyfloat

text \<open>
  The text of \<^verbatim>\<open>bookings.json\<close> is kept up to what the JSON library does with it:
  it is empty or only white space (\<open>Blank\<close>), or it is not JSON (\<open>Garbage\<close>), or it
  is the JSON text of an array of booking records. The file itself may be missing.
\<close>

datatype content = Blank | Garbage | JsonArray "booking_details list"

type_synonym bookings_file = "content option"

text \<open>
  An open file is the text not yet read. \<^verbatim>\<open>f.read()\<close> returns all of it and leaves
  the position at the end of the file, where nothing is left.
\<close>

type_synonym handle = content

definition f_read :: "handle \<Rightarrow> content \<times> handle" where
  "f_read f = (f, Blank)"

text \<open>\<^verbatim>\<open>s.strip()\<close> used as a condition: true when something other than white space is left.\<close>

definition strip_nonempty :: "content \<Rightarrow> bool" where
  "strip_nonempty s = (s \<noteq> Blank)"

definition json_loads :: "content \<Rightarrow> exn + booking_details list" where
  "json_loads s = (case s of JsonArray bookings \<Rightarrow> Inr bookings | _ \<Rightarrow> Inl JSONDecodeError)"

text \<open>\<^verbatim>\<open>json.load(f)\<close> is \<^verbatim>\<open>json.loads(f.read())\<close>: it parses what is left of the file.\<close>

definition json_load :: "handle \<Rightarrow> exn + booking_details list" where
  "json_load f = json_loads (fst (f_read f))"

text \<open>\<^verbatim>\<open>json.dump(bookings, f, indent=4)\<close> on a file opened for writing.\<close>

definition json_dump :: "booking_details list \<Rightarrow> bookings_file" where
  "json_dump bookings = Some (JsonArray bookings)"

definition check_capacity :: "bookings_file \<Rightarrow> string \<Rightarrow> string \<Rightarrow> int" where
  "check_capacity bookings_json museum_name date =
     (case bookings_json of
        None \<Rightarrow> 0
      | Some f \<Rightarrow>
          (case (if strip_nonempty (fst (f_read f)) then json_load (snd (f_read f)) else Inr [])
           of Inl e \<Rightarrow> 0
            | Inr bookings \<Rightarrow>
                sum_list (map (\<lambda>b. Adults (Visitors b) + Kids (Visitors b))
                  (filter (\<lambda>b. lower (Museum b) = lower museum_name \<and> Date b = date) bookings))))"

definition save_booking :: "bookings_file \<Rightarrow> booking_details \<Rightarrow> bookings_file" where
  "save_booking bookings_json booking_details =
     (let bookings =
        (case bookings_json of
           None \<Rightarrow> []
         | Some f \<Rightarrow>
             (case (if strip_nonempty (fst (f_read f)) then json_load (snd (f_read f)) else Inr [])
              of Inl e \<Rightarrow> [] | Inr bookings \<Rightarrow> bookings))
      in json_dump (bookings @ [booking_details]))"

text \<open>
  What the specification calls the ledger: the sequence of records the file holds, and
  its \<open>capacityUsed\<close>, the visitor sum over the entries of a museum (compared without
  case) on a date.
\<close>

definition ledger :: "bookings_file \<Rightarrow> booking_details list" where
  "ledger bookings_json =
     (case bookings_json of Some (JsonArray bookings) \<Rightarrow> bookings | _ \<Rightarrow> [])"

definition capacityUsed :: "booking_details list \<Rightarrow> string \<Rightarrow> string \<Rightarrow> int" where
  "capacityUsed bookings museum_name date =
     sum_list (map (\<lambda>b. Adults (Visitors b) + Kids (Visitors b))
       (filter (\<lambda>b. lower (Museum b) = lower museum_name \<and> Date b = date) bookings))"

subsection \<open>Parsing the booking date\<close>

text \<open>
  \<^verbatim>\<open>datetime.datetime.strptime(s, "%Y-%m-%d").date()\<close>. The library turns the format
  into the pattern \<^verbatim>\<open>(\d\d\d\d)-(1[0-2]|0[1-9]|[1-9])-(3[0-1]|[1-2]\d|0[1-9]|[1-9]| [1-9])\<close>,
  matches it at the start of the string, refuses text left over, and builds the date,
  which refuses year 0 and a day the month does not have. Each refusal is a
  \<^verbatim>\<open>ValueError\<close>, here \<open>None\<close>.
\<close>

definition is_leap :: "nat \<Rightarrow> bool" where
  "is_leap y = (y mod 4 = 0 \<and> (0 < y mod 100 \<or> y mod 400 = 0))"

definition days_in_month :: "nat \<Rightarrow> nat \<Rightarrow> nat" where
  "days_in_month y m =
     (if m = 2 then (if is_leap y then 29 else 28)
      else if m = 4 \<or> m = 6 \<or> m = 9 \<or> m = 11 then 30 else 31)"

definition days_before_year :: "nat \<Rightarrow> nat" where
  "days_before_year y = (y - 1) * 365 + (y - 1) div 4 - (y - 1) div 100 + (y - 1) div 400"

definition DAYS_BEFORE_MONTH :: "nat list" where
  "DAYS_BEFORE_MONTH = [0, 0, 31, 59, 90, 120, 151, 181, 212, 243, 273, 304, 334]"

definition days_before_month :: "nat \<Rightarrow> nat \<Rightarrow> nat" where
  "days_before_month y m = DAYS_BEFORE_MONTH ! m + (if m > 2 \<and> is_leap y then 1 else 0)"

definition ymd2ord :: "nat \<Rightarrow> nat \<Rightarrow> nat \<Rightarrow> date" where
  "ymd2ord y m d = days_before_year y + days_before_month y m + d"

definition new_date :: "nat \<Rightarrow> nat \<Rightarrow> nat \<Rightarrow> date option" where
  "new_date y m d =
     (if 1 \<le> y \<and> y \<le> 9999 \<and> 1 \<le> m \<and> m \<le> 12 \<and> 1 \<le> d \<and> d \<le> days_in_month y m
      then Some (ymd2ord y m d) else None)"

definition month_token :: "string \<Rightarrow> bool" where
  "month_token t =
     (case t of
        [a] \<Rightarrow> is_digit a \<and> a \<noteq> CHR ''0''
      | [a, b] \<Rightarrow> (a = CHR ''1'' \<and> (b = CHR ''0'' \<or> b = CHR ''1'' \<or> b = CHR ''2''))
                  \<or> (a = CHR ''0'' \<and> is_digit b \<and> b \<noteq> CHR ''0'')
      | _ \<Rightarrow> False)"

definition day_token :: "string \<Rightarrow> bool" where
  "day_token t =
     (case t of
        [a] \<Rightarrow> is_digit a \<and> a \<noteq> CHR ''0''
      | [a, b] \<Rightarrow> (a = CHR ''3'' \<and> (b = CHR ''0'' \<or> b = CHR ''1''))
                  \<or> ((a = CHR ''1'' \<or> a = CHR ''2'') \<and> is_digit b)
                  \<or> ((a = CHR ''0'' \<or> a = CHR '' '') \<and> is_digit b \<and> b \<noteq> CHR ''0'')
      | _ \<Rightarrow> False)"

definition strptime :: "string \<Rightarrow> date option" where
  "strptime s =
     (let y = take 4 s;
          m = takeWhile (\<lambda>c. c \<noteq> CHR ''-'') (drop 5 s);
          d = drop (6 + length m) s
      in if length y = 4 \<and> list_all is_digit y \<and> take 1 (drop 4 s) = ''-''
            \<and> month_token m \<and> take 1 (drop (5 + length m) s) = ''-'' \<and> day_token d
         then new_date (digits_val y) (digits_val m) (digits_val (filter is_digit d))
         else None)"

subsection \<open>The catalog and the fuzzy matcher\<close>

record museum =
  title :: string
  location :: string
  state :: string
  price :: int
  rating :: rat
  contact :: "string option"
  address :: string

text \<open>
  The similarity score of the fuzzy-matching library (its default scorer on the
  processed strings) is a parameter. \<^verbatim>\<open>process.extractOne(query, choices)\<close> scores
  every choice and returns the first one of maximal score with that score, and
  \<^verbatim>\<open>None\<close> when there is no choice.
\<close>

type_synonym scorer = "string \<Rightarrow> string \<Rightarrow> nat"

definition extractOne :: "scorer \<Rightarrow> string \<Rightarrow> string list \<Rightarrow> (string \<times> nat) option" where
  "extractOne scorer query choices =
     (case choices of
        [] \<Rightarrow> None
      | c # cs \<Rightarrow>
          Some (foldl (\<lambda>best x. if scorer query x > snd best then (x, scorer query x) else best)
                  (c, scorer query c) cs))"

text \<open>
  \<^verbatim>\<open>museum_titles\<close> is a dictionary built in catalog order: a title seen again keeps
  its place and takes the later museum.
\<close>

definition museum_titles :: "museum list \<Rightarrow> (string \<times> museum) list" where
  "museum_titles museum_data =
     foldl (\<lambda>d museum. AList.update (lower (title museum)) museum d) [] museum_data"

definition find_best_museum :: "scorer \<Rightarrow> museum list \<Rightarrow> string \<Rightarrow> museum option" where
  "find_best_museum scorer museum_data user_input =
     (let titles = museum_titles museum_data;
          user_input = strip (replace ''book me a ticket to'' '''' (clean_input user_input))
      in case map_of titles user_input of
           Some museum \<Rightarrow> Some museum
         | None \<Rightarrow>
             (case (if titles \<noteq> [] then extractOne scorer user_input (map fst titles) else None)
              of None \<Rightarrow> None
               | Some (best_match, _) \<Rightarrow>
                   if best_match \<noteq> [] then map_of titles best_match else None))"

subsection \<open>The booking request and the booking handler\<close>

text \<open>
  \<^verbatim>\<open>book_ticket\<close> reads attributes of the object it is given. An object is
  modelled by the attributes it has; reading an attribute it does not have raises
  \<^verbatim>\<open>AttributeError\<close>. The class \<^verbatim>\<open>BookingRequest\<close> declares the single field
  \<^verbatim>\<open>message\<close>: validating a request body against it needs that field and keeps
  nothing else.
\<close>

record request =
  message :: "string option"
  name :: "string option"
  museum_name :: "string option"
  adults :: "int option"
  kids :: "int option"
  ticket_type :: "string option"
  booking_date :: "string option"
  time_slot :: "string option"

definition BookingRequest :: "request \<Rightarrow> exn + request" where
  "BookingRequest body =
     (case message body of
        None \<Rightarrow> Inl RequestValidationError
      | Some m \<Rightarrow>
          Inr \<lparr>message = Some m, name = None, museum_name = None, adults = None, kids = None,
               ticket_type = None, booking_date = None, time_slot = None\<rparr>)"

record confirmation =
  conf_message :: string
  details :: booking_details

text \<open>An exception leaves the handler with the file as it is at that point.\<close>

definition raise_exn :: "exn \<Rightarrow> bookings_file \<Rightarrow> (exn + 'a) \<times> bookings_file" where
  "raise_exn e bookings_json = (Inl e, bookings_json)"

text \<open>
  The total price is \<^verbatim>\<open>(adults * ticket_price) + (kids * ticket_price * 0.5)\<close>: both
  products are integers; the multiplication by \<^verbatim>\<open>0.5\<close> converts the second to a
  float, then the addition converts the first.
\<close>

definition book_ticket ::
  "scorer \<Rightarrow> museum list \<Rightarrow> clock \<Rightarrow> bookings_file \<Rightarrow> request
     \<Rightarrow> (exn + confirmation) \<times> bookings_file" where
  "book_ticket scorer museum_data clk bookings_json request =
    (case museum_name request of
       None \<Rightarrow> raise_exn (AttributeError ''museum_name'') bookings_json
     | Some req_museum_name \<Rightarrow>
    (case find_best_museum scorer museum_data req_museum_name of
       None \<Rightarrow>
         raise_exn (HTTPException 404
           (''Sorry, museum '' @ [CHR 0x27] @ req_museum_name @ [CHR 0x27] @ '' not found.''))
           bookings_json
     | Some museum \<Rightarrow>
    (case ticket_type request of
       None \<Rightarrow> raise_exn (AttributeError ''ticket_type'') bookings_json
     | Some req_ticket_type \<Rightarrow>
    (case map_of TICKET_TYPE (lower req_ticket_type) of
       None \<Rightarrow>
         raise_exn (HTTPException 400 ''Invalid ticket type! Choose Standard, VIP, or Premium.'')
           bookings_json
     | Some tier_delta \<Rightarrow>
    (let max_booking_date = today clk + 60 in
    (case booking_date request of
       None \<Rightarrow> raise_exn (AttributeError ''booking_date'') bookings_json
     | Some req_booking_date \<Rightarrow>
    (case strptime req_booking_date of
       None \<Rightarrow>
         raise_exn (HTTPException 400 ''Invalid date format! Use YYYY-MM-DD.'') bookings_json
     | Some booking_day \<Rightarrow>
    if booking_day < today clk then
      raise_exn (HTTPException 400 ''Cannot book for a past date!'') bookings_json
    else if booking_day > max_booking_date then
      raise_exn (HTTPException 400 ''Booking only allowed within 60 days from today!'')
        bookings_json
    else if check_capacity bookings_json (title museum) req_booking_date
              \<ge> MAX_VISITORS_PER_DAY then
      raise_exn (HTTPException 400 ''Date is fully booked! Choose another date.'') bookings_json
    else
    (let available_slots = get_available_time_slots clk (PyStr req_booking_date) in
    (case time_slot request of
       None \<Rightarrow> raise_exn (AttributeError ''time_slot'') bookings_json
     | Some req_time_slot \<Rightarrow>
    if normalize_time_slot req_time_slot \<notin> set (map normalize_time_slot available_slots) then
      raise_exn (HTTPException 400
        (''Invalid time slot! Choose from: '' @ join '', '' available_slots)) bookings_json
    else
    (let base_price = price museum;
         ticket_price = base_price + tier_delta in
    (case adults request of
       None \<Rightarrow> raise_exn (AttributeError ''adults'') bookings_json
     | Some req_adults \<Rightarrow>
    (case kids request of
       None \<Rightarrow> raise_exn (AttributeError ''kids'') bookings_json
     | Some req_kids \<Rightarrow>
    (case float_of_int (req_kids * ticket_price) of
       Inl e \<Rightarrow> raise_exn e bookings_json
     | Inr kids_amount \<Rightarrow>
    (case float_of_int (req_adults * ticket_price) of
       Inl e \<Rightarrow> raise_exn e bookings_json
     | Inr adults_amount \<Rightarrow>
    (let total_price = float_add_half adults_amount kids_amount in
    (case name request of
       None \<Rightarrow> raise_exn (AttributeError ''name'') bookings_json
     | Some req_name \<Rightarrow>
    (let booking_details =
           \<lparr>Name = req_name,
            Museum = title museum,
            Visitors = \<lparr>Adults = req_adults, Kids = req_kids\<rparr>,
            Ticket_Type = capitalize req_ticket_type,
            Date = req_booking_date,
            Time_Slot = req_time_slot,
            Total_Price = total_price\<rparr>
     in (Inr \<lparr>conf_message = ''Booking Confirmed! '', details = booking_details\<rparr>,
         save_booking bookings_json booking_details))))))))))))))))))"

text \<open>
  The route \<^verbatim>\<open>POST /book_ticket\<close>: the framework validates the body against
  \<^verbatim>\<open>BookingRequest\<close> and calls the handler with the validated object.
\<close>

definition post_book_ticket ::
  "scorer \<Rightarrow> museum list \<Rightarrow> clock \<Rightarrow> bookings_file \<Rightarrow> request
     \<Rightarrow> (exn + confirmation) \<times> bookings_file" where
  "post_book_ticket scorer museum_data clk bookings_json body =
     (case BookingRequest body of
        Inl e \<Rightarrow> raise_exn e bookings_json
      | Inr request \<Rightarrow> book_ticket scorer museum_data clk bookings_json request)"

subsection \<open>The chat handler\<close>

text \<open>
  \<^verbatim>\<open>get_relevant_museum\<close> returns a text. The canned texts are kept as they are;
  a text that formats data of the catalog is kept as the return statement it comes
  from, with that data. The conversational model is a parameter from the cleaned input
  to its answer.
\<close>

datatype reply =
    Canned string
  | Mumbai_Info
  | Kids_Price museum
  | Ticket_Price museum
  | Rating museum
  | Contact museum string
  | Museums_In "museum list"
  | Top_Museums "museum list"
  | Booked confirmation
  | Model_Answer string

definition greetings :: "string list" where
  "greetings =
     [''hi'', ''hello'', ''hey'', ''good morning'', ''good afternoon'', ''good evening'']"

definition ticket_info :: "(string \<times> string) list" where
  "ticket_info =
     [(''elite'', ''The elite ticket offers the best experience with exclusive access and perks but is more expensive. Includes a multilingual audio guide with refreshments and food. With 300 INR charge more than standard.''),
      (''premium'', ''The Premium ticket offers additional perks like priority access and slight refreshments but is a 100 INR costly than the standard ticket.''),
      (''standard'', ''The Standard ticket is the most affordable and provides basic access to the museum.'')]"

text \<open>A Python \<^verbatim>\<open>str\<close> as an object: it has none of the attributes a request has.\<close>

definition str_object :: request where
  "str_object =
     \<lparr>message = None, name = None, museum_name = None, adults = None, kids = None,
      ticket_type = None, booking_date = None, time_slot = None\<rparr>"

text \<open>
  \<^verbatim>\<open>re.search(r"top\s*(\d+)", s)\<close> and the number of its group: the leftmost
  \<^verbatim>\<open>top\<close> that white space and then digits follow.
\<close>

fun top_number :: "string \<Rightarrow> nat option" where
  "top_number [] = None"
| "top_number (c # cs) =
     (let ds = takeWhile is_digit (dropWhile is_space (drop 2 cs))
      in if prefix ''top'' (c # cs) \<and> ds \<noteq> [] then Some (digits_val ds) else top_number cs)"

definition sorry_no_match :: string where
  "sorry_no_match = ''Sorry, I couldn't find a matching museum for your request.''"

definition get_relevant_museum ::
  "scorer \<Rightarrow> (string \<Rightarrow> string) \<Rightarrow> museum list \<Rightarrow> clock \<Rightarrow> bookings_file \<Rightarrow> string
     \<Rightarrow> (exn + reply) \<times> bookings_file" where
  "get_relevant_museum scorer ollama_chat museum_data clk bookings_json user_input =
    (let user_input = lower (clean_input user_input) in
     if list_ex (\<lambda>word. contains word user_input) greetings then
       (Inr (Canned
          ''Hello! How can I assist you with museum information or ticket booking today?''),
        bookings_json)
     else if contains ''thank'' user_input \<or> contains ''thanks'' user_input
             \<or> contains ''appreciate'' user_input \<or> contains ''grateful'' user_input then
       (Inr (Canned ''You're welcome! Let me know if you need more information.''),
        bookings_json)
     else if contains ''book'' user_input \<or> contains ''reserve'' user_input then
       (if list_ex (\<lambda>museum. contains (lower (title museum)) user_input) museum_data then
          (case book_ticket scorer museum_data clk bookings_json str_object of
             (Inl e, written) \<Rightarrow> (Inl e, written)
           | (Inr c, written) \<Rightarrow> (Inr (Booked c), written))
        else (Inr (Canned ''Please specify the museum name for booking.''), bookings_json))
     else if list_ex (\<lambda>keyword. contains keyword user_input)
               [''elite'', ''premium'', ''standard'', ''luxurious'', ''affordable'', ''cheap'',
                ''vs''] then
       (case find (\<lambda>(key, response). contains key user_input) ticket_info of
          Some (key, response) \<Rightarrow> (Inr (Canned response), bookings_json)
        | None \<Rightarrow>
            (Inr (Canned
               ''I can provide details on Standard, VIP, and Premium tickets. Let me know which one interests you.''),
             bookings_json))
     else
     (let location_names = map (\<lambda>museum. lower (location museum)) museum_data
                             @ map (\<lambda>museum. lower (state museum)) museum_data;
          titles = map (\<lambda>museum. lower (title museum)) museum_data
      in
      case extractOne scorer user_input location_names of
        None \<Rightarrow> raise_exn TypeError bookings_json
      | Some (best_match, score) \<Rightarrow>
      if contains ''mumbai'' user_input \<or> contains ''chhatrapati shivaji'' user_input then
        (Inr Mumbai_Info, bookings_json)
      else if (contains ''price'' user_input \<and> contains ''kids'' user_input)
              \<or> (contains ''price'' user_input \<and> contains ''children'' user_input)
              \<or> (contains ''concession'' user_input \<and> contains ''ticket'' user_input) then
        (case extractOne scorer user_input titles of
           None \<Rightarrow> (Inr (Canned sorry_no_match), bookings_json)
         | Some (best_title, title_score) \<Rightarrow>
             if best_title \<noteq> [] \<and> title_score > 80 then
               (case find (\<lambda>museum. lower (title museum) = best_title) museum_data of
                  Some matched_museum \<Rightarrow> (Inr (Kids_Price matched_museum), bookings_json)
                | None \<Rightarrow> (Inr (Canned sorry_no_match), bookings_json))
             else (Inr (Canned sorry_no_match), bookings_json))
      else if contains ''price'' user_input \<or> contains ''cost'' user_input
              \<or> contains ''ticket'' user_input then
        (let not_found = (Inr (Canned
               ''I couldn't find ticket price details for that museum. Please try specifying the exact museum name.''),
               bookings_json)
         in case extractOne scorer user_input titles of
              None \<Rightarrow> not_found
            | Some (best_title, title_score) \<Rightarrow>
                if title_score > 80 then
                  (case find (\<lambda>museum. lower (title museum) = best_title) museum_data of
                     Some matched_museum \<Rightarrow> (Inr (Ticket_Price matched_museum), bookings_json)
                   | None \<Rightarrow> not_found)
                else not_found)
      else if contains ''rating'' user_input then
        (let user_input_lower = lower user_input in
         case (case find (\<lambda>museum. contains user_input_lower (lower (title museum))
                                  \<or> contains user_input_lower (lower (state museum))
                                  \<or> contains user_input_lower (lower (location museum)))
                      museum_data of
                 Some matched_museum \<Rightarrow> Some matched_museum
               | None \<Rightarrow>
                   (case extractOne scorer user_input_lower titles of
                      None \<Rightarrow> None
                    | Some (best_title, title_score) \<Rightarrow>
                        if title_score > 80
                        then find (\<lambda>museum. lower (title museum) = best_title) museum_data
                        else None))
         of Some matched_museum \<Rightarrow> (Inr (Rating matched_museum), bookings_json)
          | None \<Rightarrow> (Inr (Canned sorry_no_match), bookings_json))
      else if contains ''contact'' user_input \<or> contains ''phone'' user_input
              \<or> contains ''email'' user_input then
        (let not_found = (Inr (Canned
               ''Sorry, I couldn't find a matching museum or contact details for your request or please try specifying the exact museum name.''),
               bookings_json)
         in case extractOne scorer user_input titles of
              None \<Rightarrow> not_found
            | Some (best_title, title_score) \<Rightarrow>
                if title_score > 80 then
                  (case find (\<lambda>museum. lower (title museum) = best_title) museum_data of
                     Some matched_museum \<Rightarrow>
                       (case contact matched_museum of
                          Some c \<Rightarrow> (Inr (Contact matched_museum c), bookings_json)
                        | None \<Rightarrow> not_found)
                   | None \<Rightarrow> not_found)
                else not_found)
      else
      (let matched_museums =
             filter (\<lambda>museum. lower (location museum) = best_match
                              \<or> lower (state museum) = best_match) museum_data
       in if score > 80 \<and> matched_museums \<noteq> [] then
            (Inr (Museums_In matched_museums), bookings_json)
          else
            (case (if contains ''top'' user_input then top_number user_input else None) of
               Some num_top \<Rightarrow>
                 (Inr (Top_Museums (take num_top (sort_key (\<lambda>x. - rating x) museum_data))),
                  bookings_json)
             | None \<Rightarrow> (Inr (Model_Answer (ollama_chat user_input)), bookings_json)))))"

subsection \<open>Sample data\<close>

definition national_museum :: museum where
  "national_museum =
     \<lparr>title = ''National Museum'', location = ''New Delhi'', state = ''Delhi'', price = 100,
      rating = 9 / 2, contact = Some ''011-23019272'', address = ''Janpath, New Delhi''\<rparr>"

text \<open>A scorer that finds nothing similar to anything.\<close>

definition no_similarity :: scorer where
  "no_similarity query choice = 0"

text \<open>4 November 2026 (ordinal 739924), three in the afternoon.\<close>

definition afternoon :: clock where
  "afternoon = \<lparr>today = 739924, hour = 15\<rparr>"

definition family_request :: request where
  "family_request =
     \<lparr>message = None, name = Some ''Asha'', museum_name = Some ''National Museum'',
      adults = Some 2, kids = Some 1, ticket_type = Some ''standard'',
      booking_date = Some ''2026-11-10'', time_slot = Some ''10:00 AM''\<rparr>"

definition family_booking :: booking_details where
  "family_booking =
     \<lparr>Name = ''Asha'', Museum = ''National Museum'', Visitors = \<lparr>Adults = 2, Kids = 1\<rparr>,
      Ticket_Type = ''Standard'', Date = ''2026-11-10'', Time_Slot = ''10:00 AM'',
      Total_Price = Finite 250\<rparr>"

definition group_booking :: booking_details where
  "group_booking =
     \<lparr>Name = ''Ravi'', Museum = ''National Museum'', Visitors = \<lparr>Adults = 500, Kids = 0\<rparr>,
      Ticket_Type = ''Standard'', Date = ''2026-11-10'', Time_Slot = ''11:00 AM'',
      Total_Price = Finite 50000\<rparr>"



definition confirmed :: "booking_details \<Rightarrow> exn + confirmation" where
  "confirmed b = Inr \<lparr>conf_message = ''Booking Confirmed! '', details = b\<rparr>"

section \<open>Properties\<close>

subsection \<open>Floating point inside the exact range\<close>

lemma mantissa_shift_stop: "n < 2 ^ 53 \<Longrightarrow> mantissa_shift n = 0"
  by (subst mantissa_shift.simps) simp

lemma mantissa_shift_step:
  "2 ^ 53 \<le> n \<Longrightarrow> mantissa_shift n = Suc (mantissa_shift (n div 2))"
  by (subst mantissa_shift.simps) simp

lemma round53_small: "n < 2 ^ 53 \<Longrightarrow> round53 n = n"
  by (simp add: round53_def mantissa_shift_stop)

lemma float_of_int_small: "\<bar>n\<bar> < 2 ^ 53 \<Longrightarrow> float_of_int n = Inr n"
proof -
  assume "\<bar>n\<bar> < 2 ^ 53"
  then have lt: "nat \<bar>n\<bar> < 2 ^ 53"
    by (simp add: nat_less_iff)
  then have r: "round53 (nat \<bar>n\<bar>) = nat \<bar>n\<bar>"
    by (rule round53_small)
  have "(2::nat) ^ 53 \<le> 2 ^ 1024"
    by (rule power_increasing) simp_all
  with lt have "\<not> (2::nat) ^ 1024 \<le> nat \<bar>n\<bar>"
    by linarith
  then show ?thesis
    unfolding float_of_int_def Let_def r by (simp only: if_False) (simp add: mult_sgn_abs)
qed

lemma float_add_half_small:
  assumes "\<bar>2 * x + y\<bar> < 2 ^ 53"
  shows "float_add_half x y = Finite (of_int x + of_int y / 2)"
proof -
  let ?t = "2 * x + y"
  from assms have lt: "nat \<bar>?t\<bar> < 2 ^ 53"
    by (simp add: nat_less_iff)
  then have r: "round53 (nat \<bar>?t\<bar>) = nat \<bar>?t\<bar>"
    by (rule round53_small)
  have "(2::nat) ^ 53 \<le> 2 ^ 1025"
    by (rule power_increasing) simp_all
  with lt have small: "\<not> (2::nat) ^ 1025 \<le> nat \<bar>?t\<bar>"
    by linarith
  have "sgn ?t * int (nat \<bar>?t\<bar>) = ?t"
    by (simp add: mult_sgn_abs)
  then have "(of_int (sgn ?t * int (nat \<bar>?t\<bar>)) :: rat) / 2 = of_int x + of_int y / 2"
    by simp
  with small show ?thesis
    unfolding float_add_half_def Let_def r by (simp only: if_False)
qed

lemma float_of_int_error: "float_of_int n = Inl e \<Longrightarrow> e = OverflowError"
  by (simp add: float_of_int_def Let_def split: if_splits)


subsection \<open>Floating point beyond the largest float\<close>

text \<open>
  An integer of magnitude \<open>2^1024\<close> or more has no float: the conversion raises
  \<^verbatim>\<open>OverflowError\<close>.
\<close>

lemma mantissa_shift_bounds:
  "2 ^ 53 \<le> n \<Longrightarrow> 2 ^ (52 + mantissa_shift n) \<le> n \<and> n < 2 ^ (53 + mantissa_shift n)"
proof (induction n rule: mantissa_shift.induct)
  case (1 n)
  have double: "(2::nat) ^ (53 + k) = 2 * 2 ^ (52 + k)" "(2::nat) ^ (54 + k) = 2 * 2 ^ (53 + k)" for k
    by (simp_all add: power_add)
  show ?case
  proof (cases "n div 2 < 2 ^ 53")
    case True
    then have "mantissa_shift n = Suc 0"
      using "1.prems" by (simp add: mantissa_shift_step mantissa_shift_stop)
    moreover from True have "n < 2 ^ 54" by simp
    ultimately show ?thesis using "1.prems" by simp
  next
    case False
    then have big: "2 ^ 53 \<le> n div 2" by simp
    have "\<not> n < 2 ^ 53" using "1.prems" by simp
    from "1.IH" [OF this big]
    have ih: "2 ^ (52 + mantissa_shift (n div 2)) \<le> n div 2"
      "n div 2 < 2 ^ (53 + mantissa_shift (n div 2))"
      by simp_all
    have s: "mantissa_shift n = Suc (mantissa_shift (n div 2))"
      using "1.prems" by (rule mantissa_shift_step)
    from ih(1) have lo: "2 * 2 ^ (52 + mantissa_shift (n div 2)) \<le> n" by linarith
    from ih(2) have hi: "n < 2 * 2 ^ (53 + mantissa_shift (n div 2))" by linarith
    have "2 ^ (52 + Suc (mantissa_shift (n div 2))) \<le> n"
      using lo by (simp only: add_Suc_right power_Suc)
    moreover have "n < 2 ^ (53 + Suc (mantissa_shift (n div 2)))"
      using hi by (simp only: add_Suc_right power_Suc)
    ultimately show ?thesis by (simp only: s) 
  qed
qed

lemma round53_overflow:
  assumes "2 ^ 1024 \<le> n"
  shows "2 ^ 1024 \<le> round53 n"
proof -
  let ?s = "mantissa_shift n"
  have "(2::nat) ^ 53 \<le> 2 ^ 1024" by (rule power_increasing) simp_all
  from this assms have "2 ^ 53 \<le> n" by (rule order_trans)
  from mantissa_shift_bounds [OF this]
  have lo: "2 ^ (52 + ?s) \<le> n" and hi: "n < 2 ^ (53 + ?s)" by blast+
  have "1024 < 53 + ?s"
  proof (rule power_less_imp_less_exp)
    show "(1::nat) < 2" by simp
    show "(2::nat) ^ 1024 < 2 ^ (53 + ?s)" by (rule le_less_trans [OF assms hi])
  qed
  then have "1024 \<le> 52 + ?s" by linarith
  then have "(2::nat) ^ 1024 \<le> 2 ^ (52 + ?s)"
    by (rule power_increasing) simp
  also have "\<dots> = 2 ^ 52 * (2::nat) ^ ?s" by (rule power_add)
  also have "\<dots> \<le> (n div 2 ^ ?s) * 2 ^ ?s"
  proof (rule mult_right_mono)
    from lo have "2 ^ 52 * 2 ^ ?s \<le> n" by (simp only: power_add)
    then show "2 ^ 52 \<le> n div 2 ^ ?s"
      by (simp only: less_eq_div_iff_mult_less_eq [OF zero_less_power [OF pos2]])
  qed simp
  also have "\<dots> \<le> round53 n"
    unfolding round53_def Let_def by (rule mult_right_mono) simp_all
  finally show ?thesis .
qed

lemma float_of_int_overflow: "2 ^ 1024 \<le> \<bar>n\<bar> \<Longrightarrow> float_of_int n = Inl OverflowError"
proof -
  assume "2 ^ 1024 \<le> \<bar>n\<bar>"
  then have "2 ^ 1024 \<le> nat \<bar>n\<bar>"
    by (simp add: le_nat_iff)
  then have "2 ^ 1024 \<le> round53 (nat \<bar>n\<bar>)" by (rule round53_overflow)
  then show ?thesis by (simp add: float_of_int_def Let_def)
qed

subsection \<open>Reading and writing the ledger file\<close>

text \<open>
  Both readers of \<^verbatim>\<open>bookings.json\<close> evaluate
  \<^verbatim>\<open>json.load(f) if f.read().strip() else []\<close>: the condition reads the file to
  its end, so the parser that follows finds nothing and raises; the handler of the
  exception then takes the ledger for empty. On a file just opened the parser returns
  the stored records.
\<close>

lemma json_load_fresh: "json_load (JsonArray bookings) = Inr bookings"
  by (simp add: json_load_def f_read_def json_loads_def)

lemma json_load_after_read: "json_load (snd (f_read f)) = Inl JSONDecodeError"
  by (simp add: json_load_def f_read_def json_loads_def)

lemma check_capacity_zero: "check_capacity bookings_json m d = 0"
  by (cases bookings_json) (simp_all add: check_capacity_def json_load_after_read)

lemma save_booking_single: "save_booking bookings_json b = Some (JsonArray [b])"
  by (cases bookings_json) (simp_all add: save_booking_def json_load_after_read json_dump_def)

subsection \<open>The booking handler: what a result tells\<close>

lemma book_ticket_error_keeps_file:
  "fst (book_ticket scorer museum_data clk bookings_json request) = Inl e
   \<Longrightarrow> snd (book_ticket scorer museum_data clk bookings_json request) = bookings_json"
  by (auto simp: book_ticket_def raise_exn_def Let_def split: option.splits if_splits sum.splits)


text \<open>
  The handler passes the date string to \<^verbatim>\<open>get_available_time_slots\<close>; a string is
  never equal to today's date, so every slot of the day is offered.
\<close>

lemma slots_for_string: "get_available_time_slots clk (PyStr s) = TIME_SLOTS"
  by (simp add: get_available_time_slots_def)

text \<open>The handler stage by stage: each rule that fails ends it with the reason of that rule.\<close>

lemma book_ticket_unknown_museum:
  assumes "museum_name request = Some mn" and "find_best_museum scorer museum_data mn = None"
  shows "book_ticket scorer museum_data clk bookings_json request
           = raise_exn (HTTPException 404
               (''Sorry, museum '' @ [CHR 0x27] @ mn @ [CHR 0x27] @ '' not found.''))
               bookings_json"
  using assms by (simp add: book_ticket_def)

lemma book_ticket_invalid_tier:
  assumes "museum_name request = Some mn" and "find_best_museum scorer museum_data mn = Some m"
    and "ticket_type request = Some tt" and "map_of TICKET_TYPE (lower tt) = None"
  shows "book_ticket scorer museum_data clk bookings_json request
           = raise_exn (HTTPException 400
               ''Invalid ticket type! Choose Standard, VIP, or Premium.'') bookings_json"
  using assms by (simp add: book_ticket_def)

lemma book_ticket_invalid_date:
  assumes "museum_name request = Some mn" and "find_best_museum scorer museum_data mn = Some m"
    and "ticket_type request = Some tt" and "map_of TICKET_TYPE (lower tt) = Some delta"
    and "booking_date request = Some bd" and "strptime bd = None"
  shows "book_ticket scorer museum_data clk bookings_json request
           = raise_exn (HTTPException 400 ''Invalid date format! Use YYYY-MM-DD.'')
               bookings_json"
  using assms by (simp add: book_ticket_def)

lemma book_ticket_past_date:
  assumes "museum_name request = Some mn" and "find_best_museum scorer museum_data mn = Some m"
    and "ticket_type request = Some tt" and "map_of TICKET_TYPE (lower tt) = Some delta"
    and "booking_date request = Some bd" and "strptime bd = Some day"
    and "day < today clk"
  shows "book_ticket scorer museum_data clk bookings_json request
           = raise_exn (HTTPException 400 ''Cannot book for a past date!'') bookings_json"
  using assms by (simp add: book_ticket_def)

lemma book_ticket_far_date:
  assumes "museum_name request = Some mn" and "find_best_museum scorer museum_data mn = Some m"
    and "ticket_type request = Some tt" and "map_of TICKET_TYPE (lower tt) = Some delta"
    and "booking_date request = Some bd" and "strptime bd = Some day"
    and "today clk + 60 < day"
  shows "book_ticket scorer museum_data clk bookings_json request
           = raise_exn (HTTPException 400 ''Booking only allowed within 60 days from today!'')
               bookings_json"
  using assms by (simp add: book_ticket_def)

lemma book_ticket_in_window:
  assumes "museum_name request = Some mn" and "find_best_museum scorer museum_data mn = Some m"
    and "ticket_type request = Some tt" and "map_of TICKET_TYPE (lower tt) = Some delta"
    and "booking_date request = Some bd" and "strptime bd = Some day"
    and "today clk \<le> day" and "day \<le> today clk + 60"
  shows "fst (book_ticket scorer museum_data clk bookings_json request)
           \<noteq> Inl (HTTPException 400 ''Cannot book for a past date!'')"
    and "fst (book_ticket scorer museum_data clk bookings_json request)
           \<noteq> Inl (HTTPException 400 ''Booking only allowed within 60 days from today!'')"
  using assms
  by (auto simp: book_ticket_def raise_exn_def Let_def split: option.splits sum.splits
      dest: float_of_int_error)

lemma book_ticket_invalid_slot:
  assumes "museum_name request = Some mn" and "find_best_museum scorer museum_data mn = Some m"
    and "ticket_type request = Some tt" and "map_of TICKET_TYPE (lower tt) = Some delta"
    and "booking_date request = Some bd" and "strptime bd = Some day"
    and "today clk \<le> day" and "day \<le> today clk + 60"
    and "check_capacity bookings_json (title m) bd < MAX_VISITORS_PER_DAY"
    and "time_slot request = Some ts"
    and "normalize_time_slot ts \<notin> set (map normalize_time_slot TIME_SLOTS)"
  shows "book_ticket scorer museum_data clk bookings_json request
           = raise_exn (HTTPException 400
               (''Invalid time slot! Choose from: '' @ join '', '' TIME_SLOTS)) bookings_json"
  using assms by (simp add: book_ticket_def slots_for_string)


subsection \<open>The fuzzy matcher never refuses\<close>

text \<open>
  \<^verbatim>\<open>find_best_museum\<close> drops the score of the best match: on a catalog that is not
  empty and has no empty title it finds a museum for every input, whatever the scorer
  says.
\<close>

lemma museum_titles_keys_aux:
  "fst ` set (foldl (\<lambda>d museum. AList.update (lower (title museum)) museum d) acc ms)
     = fst ` set acc \<union> (\<lambda>museum. lower (title museum)) ` set ms"
  by (induction ms arbitrary: acc) (auto simp: dom_update)

lemma museum_titles_keys:
  "fst ` set (museum_titles museum_data) = (\<lambda>museum. lower (title museum)) ` set museum_data"
  by (simp add: museum_titles_def museum_titles_keys_aux)

lemma extractOne_aux:
  "fst best \<in> S \<Longrightarrow> set cs \<subseteq> S
   \<Longrightarrow> fst (foldl (\<lambda>best x. if scorer query x > snd best then (x, scorer query x) else best)
             best cs) \<in> S"
  by (induction cs arbitrary: best) auto

lemma extractOne_member:
  assumes "choices \<noteq> []"
  shows "\<exists>best score. extractOne scorer query choices = Some (best, score)
                       \<and> best \<in> set choices"
proof (cases choices)
  case Nil
  with assms show ?thesis by simp
next
  case (Cons c cs)
  have "fst (foldl (\<lambda>best x. if scorer query x > snd best then (x, scorer query x) else best)
               (c, scorer query c) cs) \<in> set (c # cs)"
    by (rule extractOne_aux) auto
  with Cons show ?thesis
    by (cases "foldl (\<lambda>best x. if scorer query x > snd best then (x, scorer query x) else best)
                 (c, scorer query c) cs") (simp add: extractOne_def)
qed

lemma find_best_museum_ignores_score:
  assumes "museum_data \<noteq> []" and "\<forall>museum \<in> set museum_data. title museum \<noteq> []"
  shows "find_best_museum scorer museum_data user_input \<noteq> None"
proof -
  let ?titles = "museum_titles museum_data"
  let ?q = "strip (replace ''book me a ticket to'' '''' (clean_input user_input))"
  from assms(1) have ne: "?titles \<noteq> []"
    using museum_titles_keys [of museum_data] by auto
  then have "map fst ?titles \<noteq> []" by simp
  from extractOne_member [OF this] obtain best score where
    best: "extractOne scorer ?q (map fst ?titles) = Some (best, score)"
      "best \<in> set (map fst ?titles)"
    by blast
  from best(2) have "best \<in> (\<lambda>museum. lower (title museum)) ` set museum_data"
    using museum_titles_keys [of museum_data] by simp
  with assms(2) have "best \<noteq> []"
    by (auto simp: lower_def)
  moreover from best(2) have "map_of ?titles best \<noteq> None"
    by (simp add: map_of_eq_None_iff)
  ultimately show ?thesis
    using ne best(1)
    by (auto simp: find_best_museum_def Let_def split: option.splits)
qed

subsection \<open>Cleaned input is lower case\<close>

lemma lower_char_idem: "lower_char (lower_char c) = lower_char c"
  by (auto simp: lower_char_def split: option.splits if_splits)

lemma lower_idem: "lower (lower s) = lower s"
  by (simp add: lower_def lower_char_idem)

lemma lower_clean_input: "lower (clean_input s) = clean_input s"
  by (simp add: clean_input_def lower_idem)

subsection \<open>Evaluation on the sample data\<close>

lemmas string_eval = lower_def lower_char_def upper_def upper_char_def capitalize_def
  is_space_def is_digit_def is_word_def strip_def replace_def clean_input_def
  digit_val_def digits_val_def Let_def

lemmas date_eval = strptime_def month_token_def day_token_def new_date_def ymd2ord_def
  days_before_year_def days_before_month_def DAYS_BEFORE_MONTH_def days_in_month_def
  is_leap_def

lemma find_national:
  "find_best_museum scorer [national_museum] ''National Museum'' = Some national_museum"
  by (simp add: find_best_museum_def museum_titles_def national_museum_def string_eval)

lemma find_anything:
  "find_best_museum scorer [national_museum] ''zzz'' = Some national_museum"
  by (simp add: find_best_museum_def museum_titles_def national_museum_def string_eval
      extractOne_def)

lemma national_fields:
  "title national_museum = ''National Museum''" "price national_museum = 100"
  by (simp_all add: national_museum_def)

lemma tier_standard: "map_of TICKET_TYPE (lower ''standard'') = Some 0"
  by (simp add: TICKET_TYPE_def string_eval)

lemma strptime_nov_1: "strptime ''2026-11-01'' = Some 739921"
  by (simp add: string_eval date_eval)

lemma strptime_nov_4: "strptime ''2026-11-04'' = Some 739924"
  by (simp add: string_eval date_eval)

lemma strptime_nov_10: "strptime ''2026-11-10'' = Some 739930"
  by (simp add: string_eval date_eval)

lemma strptime_jan_3: "strptime ''2027-01-03'' = Some 739984"
  by (simp add: string_eval date_eval)

lemma strptime_jan_4: "strptime ''2027-01-04'' = Some 739985"
  by (simp add: string_eval date_eval)

lemma ten_am: "normalize_time_slot ''10:00 AM'' \<in> normalize_time_slot ` set TIME_SLOTS"
  by (rule imageI) (simp add: TIME_SLOTS_def)

lemma capitalize_standard: "capitalize ''standard'' = ''Standard''"
  by (simp add: string_eval)

lemmas booking_eval = national_fields book_ticket_def raise_exn_def confirmed_def
  find_national find_anything tier_standard strptime_nov_1 strptime_nov_4 strptime_nov_10
  strptime_jan_3 strptime_jan_4 slots_for_string ten_am capitalize_standard
  check_capacity_zero save_booking_single MAX_VISITORS_PER_DAY_def Let_def afternoon_def
  float_of_int_small float_add_half_small

lemma family_books:
  "book_ticket scorer [national_museum] afternoon bookings_json family_request
     = (confirmed family_booking, Some (JsonArray [family_booking]))"
  by (simp add: booking_eval family_request_def family_booking_def)


text \<open>
  A party too large for a float ends the handler with \<^verbatim>\<open>OverflowError\<close>, and nothing
  is written.
\<close>

lemma astronomic_party_overflows:
  "book_ticket scorer [national_museum] afternoon bookings_json
     (family_request\<lparr>adults := Some (10 ^ 400)\<rparr>)
   = (Inl OverflowError, bookings_json)"
proof -
  have "(2::int) ^ 1024 \<le> \<bar>10 ^ 400 * (100 + 0)\<bar>" by simp
  then have "float_of_int (10 ^ 400 * (100 + 0)) = Inl OverflowError"
    by (rule float_of_int_overflow)
  then show ?thesis
    by (simp add: booking_eval family_request_def)
qed

section \<open>The claims\<close>

text \<open>
  Claim C1. A \<^verbatim>\<open>POST /book_ticket\<close> request that carries the booking fields is
  answered, when the validation rules pass, by a confirmation with the booking detail.
  The handler cannot do so: the validated request object has the single field
  \<^verbatim>\<open>message\<close>, so a body without it is refused by the validation and every other
  body is stopped by the first attribute the handler reads. No request is confirmed and
  the ledger is never written.
\<close>

theorem post_book_ticket_never_confirms:
  "post_book_ticket scorer museum_data clk bookings_json body =
     (Inl (case message body of
             None \<Rightarrow> RequestValidationError
           | Some m \<Rightarrow> AttributeError ''museum_name''),
      bookings_json)"
  by (cases "message body")
     (simp_all add: post_book_ticket_def BookingRequest_def book_ticket_def raise_exn_def)

text \<open>
  Claim C2. The ledger append keeps every stored record and adds the new one at the
  end. \<^verbatim>\<open>save_booking\<close> does not: whatever the file held, it holds the new record
  alone afterwards; a ledger of one group booking followed by the family booking is not
  the two bookings in a row.
\<close>

theorem save_booking_forgets_stored_records:
  "ledger (save_booking bookings_json b) = [b]
   \<and> ledger (save_booking (Some (JsonArray [group_booking])) family_booking)
       \<noteq> [group_booking, family_booking]"
  by (simp add: save_booking_single ledger_def)




text \<open>
  Claim C4. Once the visitor sum of a museum and date has reached the cap, every further
  booking for them is rejected for capacity. The handler does not: with 500 visitors in
  the ledger for the National Museum on 2026-11-10 the capacity check still counts none,
  and the family's booking for that museum and date is confirmed.
\<close>

theorem full_date_still_books:
  "capacityUsed (ledger (Some (JsonArray [group_booking]))) ''National Museum'' ''2026-11-10''
     = MAX_VISITORS_PER_DAY
   \<and> check_capacity (Some (JsonArray [group_booking])) ''National Museum'' ''2026-11-10'' = 0
   \<and> fst (book_ticket no_similarity [national_museum] afternoon
            (Some (JsonArray [group_booking])) family_request)
       = confirmed family_booking"
  by (simp add: family_books check_capacity_zero ledger_def capacityUsed_def
      group_booking_def MAX_VISITORS_PER_DAY_def)




text \<open>
  Claim C6. For a request whose date parses: a day before today is rejected, a day more
  than 60 days after today is rejected, each with the reason of its rule as soon as the
  museum is resolved and the tier is recognised (a request stopped earlier is rejected
  with the earlier reason); a day from today to today + 60 meets neither of the two
  rejections.
\<close>

theorem date_window_enforced:
  assumes "museum_name request = Some mn" and "ticket_type request = Some tt"
    and "booking_date request = Some bd" and "strptime bd = Some day"
  shows "(day < today clk \<longrightarrow>
            (\<exists>status reason.
               fst (book_ticket scorer museum_data clk bookings_json request)
                 = Inl (HTTPException status reason))
          \<and> (find_best_museum scorer museum_data mn \<noteq> None
               \<and> map_of TICKET_TYPE (lower tt) \<noteq> None \<longrightarrow>
              fst (book_ticket scorer museum_data clk bookings_json request)
                = Inl (HTTPException 400 ''Cannot book for a past date!'')))
       \<and> (today clk + 60 < day \<longrightarrow>
            (\<exists>status reason.
               fst (book_ticket scorer museum_data clk bookings_json request)
                 = Inl (HTTPException status reason))
          \<and> (find_best_museum scorer museum_data mn \<noteq> None
               \<and> map_of TICKET_TYPE (lower tt) \<noteq> None \<longrightarrow>
              fst (book_ticket scorer museum_data clk bookings_json request)
                = Inl (HTTPException 400 ''Booking only allowed within 60 days from today!'')))
       \<and> (today clk \<le> day \<and> day \<le> today clk + 60 \<longrightarrow>
            fst (book_ticket scorer museum_data clk bookings_json request)
              \<noteq> Inl (HTTPException 400 ''Cannot book for a past date!'')
          \<and> fst (book_ticket scorer museum_data clk bookings_json request)
              \<noteq> Inl (HTTPException 400 ''Booking only allowed within 60 days from today!''))"
proof -
  consider (unknown) "find_best_museum scorer museum_data mn = None"
    | (tier) m where "find_best_museum scorer museum_data mn = Some m"
        "map_of TICKET_TYPE (lower tt) = None"
    | (dated) m delta where "find_best_museum scorer museum_data mn = Some m"
        "map_of TICKET_TYPE (lower tt) = Some delta"
    by (cases "find_best_museum scorer museum_data mn"; cases "map_of TICKET_TYPE (lower tt)")
       auto
  then show ?thesis
  proof cases
    case unknown
    from book_ticket_unknown_museum [OF assms(1) unknown] show ?thesis
      by (simp add: raise_exn_def unknown)
  next
    case tier
    from book_ticket_invalid_tier [OF assms(1) tier(1) assms(2) tier(2)] show ?thesis
      by (simp add: raise_exn_def tier)
  next
    case dated
    note stage = assms(1) dated(1) assms(2) dated(2) assms(3,4)
    have past: "day < today clk \<Longrightarrow>
        fst (book_ticket scorer museum_data clk bookings_json request)
          = Inl (HTTPException 400 ''Cannot book for a past date!'')"
      using book_ticket_past_date [OF stage] by (simp add: raise_exn_def)
    have far: "today clk + 60 < day \<Longrightarrow>
        fst (book_ticket scorer museum_data clk bookings_json request)
          = Inl (HTTPException 400 ''Booking only allowed within 60 days from today!'')"
      using book_ticket_far_date [OF stage] by (simp add: raise_exn_def)
    have inside: "today clk \<le> day \<Longrightarrow> day \<le> today clk + 60 \<Longrightarrow>
        fst (book_ticket scorer museum_data clk bookings_json request)
          \<noteq> Inl (HTTPException 400 ''Cannot book for a past date!'')
        \<and> fst (book_ticket scorer museum_data clk bookings_json request)
          \<noteq> Inl (HTTPException 400 ''Booking only allowed within 60 days from today!'')"
      using book_ticket_in_window [OF stage] by simp
    from past far inside show ?thesis by blast
  qed
qed

theorem date_window_enforced_witness:
  "fst (book_ticket no_similarity [national_museum] afternoon None
          (family_request\<lparr>booking_date := Some ''2026-11-01''\<rparr>))
     = Inl (HTTPException 400 ''Cannot book for a past date!'')
   \<and> fst (book_ticket no_similarity [national_museum] afternoon None
          (family_request\<lparr>booking_date := Some ''2027-01-04''\<rparr>))
     = Inl (HTTPException 400 ''Booking only allowed within 60 days from today!'')
   \<and> fst (book_ticket no_similarity [national_museum] afternoon None
          (family_request\<lparr>booking_date := Some ''2027-01-03''\<rparr>))
     \<noteq> Inl (HTTPException 400 ''Booking only allowed within 60 days from today!'')
   \<and> fst (book_ticket no_similarity [national_museum] afternoon None
          (family_request\<lparr>booking_date := Some ''2026-11-04''\<rparr>))
     \<noteq> Inl (HTTPException 400 ''Cannot book for a past date!'')"
proof -
  have attrs: "museum_name (family_request\<lparr>booking_date := Some d\<rparr>) = Some ''National Museum''"
    "ticket_type (family_request\<lparr>booking_date := Some d\<rparr>) = Some ''standard''"
    "booking_date (family_request\<lparr>booking_date := Some d\<rparr>) = Some d" for d
    by (simp_all add: family_request_def)
  have early: "(739921::nat) < today afternoon" and late: "today afternoon + 60 < (739985::nat)"
    and last: "today afternoon \<le> (739984::nat) \<and> (739984::nat) \<le> today afternoon + 60"
    and first: "today afternoon \<le> (739924::nat) \<and> (739924::nat) \<le> today afternoon + 60"
    by (simp_all add: afternoon_def)
  have resolved: "find_best_museum no_similarity [national_museum] ''National Museum'' \<noteq> None
                  \<and> map_of TICKET_TYPE (lower ''standard'') \<noteq> None"
    by (simp add: find_national tier_standard)
  have past: "fst (book_ticket no_similarity [national_museum] afternoon None
                    (family_request\<lparr>booking_date := Some ''2026-11-01''\<rparr>))
                = Inl (HTTPException 400 ''Cannot book for a past date!'')"
    using date_window_enforced [OF attrs strptime_nov_1, of afternoon no_similarity
        "[national_museum]" None] early resolved
    by simp
  have far: "fst (book_ticket no_similarity [national_museum] afternoon None
                    (family_request\<lparr>booking_date := Some ''2027-01-04''\<rparr>))
                = Inl (HTTPException 400 ''Booking only allowed within 60 days from today!'')"
    using date_window_enforced [OF attrs strptime_jan_4, of afternoon no_similarity
        "[national_museum]" None] late resolved
    by simp
  have last_day: "fst (book_ticket no_similarity [national_museum] afternoon None
                    (family_request\<lparr>booking_date := Some ''2027-01-03''\<rparr>))
                \<noteq> Inl (HTTPException 400 ''Booking only allowed within 60 days from today!'')"
    using date_window_enforced [OF attrs strptime_jan_3, of afternoon no_similarity
        "[national_museum]" None] last
    by simp
  have first_day: "fst (book_ticket no_similarity [national_museum] afternoon None
                    (family_request\<lparr>booking_date := Some ''2026-11-04''\<rparr>))
                \<noteq> Inl (HTTPException 400 ''Cannot book for a past date!'')"
    using date_window_enforced [OF attrs strptime_nov_4, of afternoon no_similarity
        "[national_museum]" None] first
    by simp
  from past far last_day first_day show ?thesis
    by (intro conjI)
qed

text \<open>
  Claim C7. A request dated today is accepted only with a slot later than the current
  hour; on a later date any listed slot is valid. The handler accepts every listed slot
  on every date: at three in the afternoon of 2026-11-04 the slot 10:00 AM of that day is
  booked, although no slot of the day is left for today's date.
\<close>

theorem past_slot_today_is_accepted:
  "strptime ''2026-11-04'' = Some (today afternoon)
   \<and> slot_hour ''10:00 AM'' < hour afternoon
   \<and> ''10:00 AM'' \<notin> set (get_available_time_slots afternoon (PyDate (today afternoon)))
   \<and> fst (book_ticket no_similarity [national_museum] afternoon None
            (family_request\<lparr>booking_date := Some ''2026-11-04''\<rparr>))
       = confirmed (family_booking\<lparr>Date := ''2026-11-04''\<rparr>)"
proof -
  have "slot_hour ''10:00 AM'' = 10"
    by (simp add: slot_hour_def string_eval)
  moreover have "get_available_time_slots afternoon (PyDate (today afternoon)) = []"
    by (simp add: get_available_time_slots_def TIME_SLOTS_def slot_hour_def string_eval
        afternoon_def)
  moreover have "fst (book_ticket no_similarity [national_museum] afternoon None
            (family_request\<lparr>booking_date := Some ''2026-11-04''\<rparr>))
       = confirmed (family_booking\<lparr>Date := ''2026-11-04''\<rparr>)"
    by (simp add: booking_eval family_request_def family_booking_def)
  ultimately show ?thesis
    by (simp add: strptime_nov_4 afternoon_def)
qed

text \<open>
  Claim C8. A museum found by fuzzy matching is accepted only with a score of at least
  80, and the request fails with the unknown-museum error otherwise. The handler accepts
  the best match whatever its score: the name \<^verbatim>\<open>zzz\<close>, which scores 0 against the
  only title of the catalog, is booked for that museum.
\<close>

theorem dissimilar_name_is_booked:
  "extractOne no_similarity ''zzz'' (map fst (museum_titles [national_museum]))
     = Some (''national museum'', 0)
   \<and> fst (book_ticket no_similarity [national_museum] afternoon None
            (family_request\<lparr>museum_name := Some ''zzz''\<rparr>))
       = confirmed family_booking"
proof -
  have "extractOne no_similarity ''zzz'' (map fst (museum_titles [national_museum]))
          = Some (''national museum'', 0)"
    by (simp add: extractOne_def museum_titles_def national_museum_def no_similarity_def
        string_eval)
  moreover have "fst (book_ticket no_similarity [national_museum] afternoon None
            (family_request\<lparr>museum_name := Some ''zzz''\<rparr>))
       = confirmed family_booking"
    by (simp add: booking_eval family_request_def family_booking_def)
  ultimately show ?thesis by simp
qed

text \<open>
  Claim C9. A failing rule (unknown museum, tier, date, capacity, slot) ends the booking
  with the reason of that rule, the first failing rule in order, and nothing is written.
  The capacity rule does not: with the cap reached for the museum and date, the booking is
  not rejected for capacity and the ledger is rewritten, losing the stored record.
\<close>

theorem full_ledger_is_overwritten:
  "MAX_VISITORS_PER_DAY
     \<le> capacityUsed (ledger (Some (JsonArray [group_booking]))) ''National Museum''
          ''2026-11-10''
   \<and> fst (book_ticket no_similarity [national_museum] afternoon
            (Some (JsonArray [group_booking])) family_request)
       \<noteq> Inl (HTTPException 400 ''Date is fully booked! Choose another date.'')
   \<and> snd (book_ticket no_similarity [national_museum] afternoon
            (Some (JsonArray [group_booking])) family_request)
       = Some (JsonArray [family_booking])"
  by (simp add: family_books confirmed_def ledger_def capacityUsed_def group_booking_def
      MAX_VISITORS_PER_DAY_def)

text \<open>
  Claim C10. The chat decides the greeting by containment: an input whose cleaned text
  contains \<^verbatim>\<open>hi\<close>, \<^verbatim>\<open>hey\<close> or \<^verbatim>\<open>hello\<close> anywhere, also inside a longer word,
  gets the canned greeting and no later intent is looked at.
\<close>

theorem greeting_by_substring:
  assumes "contains ''hi'' (clean_input user_input) \<or> contains ''hey'' (clean_input user_input)
           \<or> contains ''hello'' (clean_input user_input)"
  shows "get_relevant_museum scorer ollama_chat museum_data clk bookings_json user_input
           = (Inr (Canned
                ''Hello! How can I assist you with museum information or ticket booking today?''),
              bookings_json)"
  using assms
  by (auto simp: get_relevant_museum_def lower_clean_input greetings_def Let_def)

theorem greeting_by_substring_witness:
  "contains ''hi'' (clean_input ''Which museums are in Delhi?'')
   \<and> get_relevant_museum no_similarity (\<lambda>q. ''I only provide information about museums.'')
        [national_museum] afternoon None ''Which museums are in Delhi?''
       = (Inr (Canned
            ''Hello! How can I assist you with museum information or ticket booking today?''),
          None)"
proof -
  have hi: "contains ''hi'' (clean_input ''Which museums are in Delhi?'')"
    by (simp add: string_eval)
  then have "contains ''hi'' (clean_input ''Which museums are in Delhi?'')
        \<or> contains ''hey'' (clean_input ''Which museums are in Delhi?'')
        \<or> contains ''hello'' (clean_input ''Which museums are in Delhi?'')"
    by (rule disjI1)
  from greeting_by_substring [OF this] hi show ?thesis
    by (intro conjI)
qed

end
